theory Spec2Isabelle
  imports Complex_Main "HOL-Library.Sublist"
begin

section \<open>JavaScript values\<close>

text \<open>
  The values that the modelled functions read and produce. \<open>Undefined\<close> is what reading
  a missing property gives, \<open>Null\<close> is JSON's and JavaScript's null, \<open>Str\<close> is a string.
  \<open>NativeFunction\<close> and \<open>ObjectPrototype\<close> are the run-time objects that an object literal
  inherits from \<open>Object.prototype\<close>: they are reached when a property that the object does
  not own is read under an inherited name.
\<close>

datatype jsval =
    Undefined
  | Null
  | Str string
  | NativeFunction string
  | ObjectPrototype

text \<open>ToBoolean: of these values only undefined, null and the empty string are falsy.\<close>

fun ToBoolean :: "jsval \<Rightarrow> bool" where
  "ToBoolean Undefined = False"
| "ToBoolean Null = False"
| "ToBoolean (Str s) = (s \<noteq> [])"
| "ToBoolean (NativeFunction f) = True"
| "ToBoolean ObjectPrototype = True"

text \<open>The operator \<^verbatim>\<open>a || b\<close>: the left operand when it is truthy, else the right one.\<close>

definition js_or :: "jsval \<Rightarrow> jsval \<Rightarrow> jsval" where
  "js_or a b = (if ToBoolean a then a else b)"

text \<open>ToString, as a template literal and \<^verbatim>\<open>new Error(x)\<close> apply it.\<close>

fun ToString :: "jsval \<Rightarrow> string" where
  "ToString Undefined = ''undefined''"
| "ToString Null = ''null''"
| "ToString (Str s) = s"
| "ToString (NativeFunction f) = ''function '' @ f @ ''() { [native code] }''"
| "ToString ObjectPrototype = ''[object Object]''"

text \<open>
  The properties every ordinary object inherits from \<open>Object.prototype\<close> (ECMA-262,
  Properties of the Object Prototype Object). Reading \<^verbatim>\<open>__proto__\<close> on an object literal
  gives \<open>Object.prototype\<close> itself; every other entry is a built-in function.
\<close>

definition Object_prototype :: "(string \<times> jsval) list" where
  "Object_prototype =
    [(''constructor'', NativeFunction ''Object''),
     (''hasOwnProperty'', NativeFunction ''hasOwnProperty''),
     (''isPrototypeOf'', NativeFunction ''isPrototypeOf''),
     (''propertyIsEnumerable'', NativeFunction ''propertyIsEnumerable''),
     (''toLocaleString'', NativeFunction ''toLocaleString''),
     (''toString'', NativeFunction ''toString''),
     (''valueOf'', NativeFunction ''valueOf''),
     (''__proto__'', ObjectPrototype),
     (''__defineGetter__'', NativeFunction ''__defineGetter__''),
     (''__defineSetter__'', NativeFunction ''__defineSetter__''),
     (''__lookupGetter__'', NativeFunction ''__lookupGetter__''),
     (''__lookupSetter__'', NativeFunction ''__lookupSetter__'')]"

text \<open>
  The property read \<^verbatim>\<open>obj[key]\<close> on an object literal given by its own properties: the
  own property if there is one, else the inherited one, else undefined.
\<close>

definition Get :: "(string \<times> jsval) list \<Rightarrow> string \<Rightarrow> jsval" where
  "Get own key =
     (case map_of own key of
        Some v \<Rightarrow> v
      | None \<Rightarrow> (case map_of Object_prototype key of Some v \<Rightarrow> v | None \<Rightarrow> Undefined))"

text \<open>
  Number::toString on the integers a template literal meets here (array indices, the
  millisecond clock, HTTP status codes): decimal digits, with a minus sign below zero.
\<close>

definition digit_char :: "nat \<Rightarrow> char" where
  "digit_char d = char_of (48 + d)"

fun digits :: "nat \<Rightarrow> string" where
  "digits n = (if n < 10 then [digit_char n] else digits (n div 10) @ [digit_char (n mod 10)])"

declare digits.simps [simp del]

definition Number_toString :: "int \<Rightarrow> string" where
  "Number_toString n = (if n < 0 then CHR ''-'' # digits (nat (- n)) else digits (nat n))"


section \<open>detectionService.js\<close>

subsection \<open>mapCategory\<close>

definition categoryMap :: "(string \<times> jsval) list" where
  "categoryMap =
    [(''fruit'', Str ''fruits''),
     (''vegetable'', Str ''vegetables''),
     (''packaged'', Str ''packaged'')]"

definition mapCategory :: "string \<Rightarrow> jsval" where
  "mapCategory backendCategory = js_or (Get categoryMap backendCategory) (Str ''other'')"

subsection \<open>processDetectionResults\<close>

text \<open>
  An element of \<^verbatim>\<open>detected_items\<close>, typed as the backend documents its response
  (README, POST /detect): category and label are strings, confidence is a JSON number,
  extra is a string, null, or absent (read as undefined).
\<close>

record detected_item =
  category :: string
  label :: string
  confidence :: real
  extra :: jsval

record detection_response =
  detected_items :: "detected_item list"

text \<open>
  The object built for each detected item; its fields id, name, category and confidence
  are \<open>rec_id\<close>, \<open>rec_name\<close>, \<open>rec_category\<close> and \<open>rec_confidence\<close> here.
  \<open>detectedAt\<close> holds the clock reading whose ISO rendering the source stores.
\<close>

record inventory_record =
  rec_id :: string
  rec_name :: string
  rec_category :: jsval
  rec_confidence :: real
  ocrText :: jsval
  detectedAt :: int

text \<open>
  The callback of \<^verbatim>\<open>detected_items.map\<close>. The clock is read twice for each item
  (\<^verbatim>\<open>Date.now()\<close> for the id, \<^verbatim>\<open>new Date()\<close> for detectedAt); \<open>clock k\<close> is the
  \<open>k\<close>-th reading of the call, in milliseconds since the epoch.
\<close>

definition formatItem :: "(nat \<Rightarrow> int) \<Rightarrow> nat \<Rightarrow> detected_item \<Rightarrow> inventory_record" where
  "formatItem clock index item =
     \<lparr> rec_id = ''detected-'' @ Number_toString (clock (2 * index)) @ ''-''
                 @ Number_toString (int index),
       rec_name = label item,
       rec_category = mapCategory (category item),
       rec_confidence = confidence item,
       ocrText = js_or (extra item) Null,
       detectedAt = clock (2 * index + 1) \<rparr>"

definition processDetectionResults ::
  "(nat \<Rightarrow> int) \<Rightarrow> detection_response \<Rightarrow> inventory_record list" where
  "processDetectionResults clock detectionResponse =
     map (\<lambda>(index, item). formatItem clock index item)
         (enumerate 0 (detected_items detectionResponse))"

text \<open>
  The assembler's validity of the specification (a non-empty name and a confidence in
  \<open>[0, 1]\<close>), on detected items and on the records built from them. The source has no
  such check; these two predicates only serve to state what it does with invalid items.
\<close>

definition valid_item :: "detected_item \<Rightarrow> bool" where
  "valid_item item = (label item \<noteq> [] \<and> 0 \<le> confidence item \<and> confidence item \<le> 1)"

definition valid_record :: "inventory_record \<Rightarrow> bool" where
  "valid_record r = (rec_name r \<noteq> [] \<and> 0 \<le> rec_confidence r \<and> rec_confidence r \<le> 1)"

subsection \<open>detectFoodItems\<close>

text \<open>An exception value: the \<^verbatim>\<open>name\<close> and \<^verbatim>\<open>message\<close> of the error object.\<close>

datatype js_error = JsError (error_name: string) (error_message: string)

text \<open>
  A JSON value, as \<^verbatim>\<open>response.json()\<close> yields it. An object is given by its own
  properties; the value of a key is its first entry.
\<close>

datatype json_value =
    JNull
  | JBool bool
  | JNum real
  | JStr string
  | JArr "json_value list"
  | JObj "(string \<times> json_value) list"

text \<open>ToBoolean on JSON values: null, false, 0 and the empty string are falsy.\<close>

fun ToBoolean_json :: "json_value \<Rightarrow> bool" where
  "ToBoolean_json JNull = False"
| "ToBoolean_json (JBool b) = b"
| "ToBoolean_json (JNum x) = (x \<noteq> 0)"
| "ToBoolean_json (JStr s) = (s \<noteq> [])"
| "ToBoolean_json (JArr xs) = True"
| "ToBoolean_json (JObj props) = True"

text \<open>\<^verbatim>\<open>Array.prototype.join\<close> with the default separator.\<close>

fun join_comma :: "string list \<Rightarrow> string" where
  "join_comma [] = []"
| "join_comma [x] = x"
| "join_comma (x # y # ys) = x @ '','' @ join_comma (y # ys)"

text \<open>
  ToString on JSON values, as \<^verbatim>\<open>new Error(x)\<close> applies it to its argument. An array is
  joined, with null elements rendered as the empty string; an object is
  \<^verbatim>\<open>[object Object]\<close>. \<open>num\<close> is the engine's Number::toString on the numbers of a body.
\<close>

fun ToString_json :: "(real \<Rightarrow> string) \<Rightarrow> json_value \<Rightarrow> string" where
  "ToString_json num JNull = ''null''"
| "ToString_json num (JBool b) = (if b then ''true'' else ''false'')"
| "ToString_json num (JNum x) = num x"
| "ToString_json num (JStr s) = s"
| "ToString_json num (JArr xs) =
     join_comma (map (\<lambda>x. if x = JNull then [] else ToString_json num x) xs)"
| "ToString_json num (JObj props) = ''[object Object]''"

text \<open>
  The property read \<^verbatim>\<open>errorData.detail\<close>. On null it throws a TypeError (the wording of
  the message is the engine's); on an object it gives the own property, if any; no
  prototype has a property of this name, so every other read gives undefined (\<open>None\<close>).
\<close>

definition read_detail :: "json_value \<Rightarrow> js_error + json_value option" where
  "read_detail errorData =
     (case errorData of
        JNull \<Rightarrow> Inl (JsError ''TypeError'' ''Cannot read property detail of null'')
      | JObj props \<Rightarrow> Inr (map_of props ''detail'')
      | _ \<Rightarrow> Inr None)"

text \<open>The operator \<^verbatim>\<open>a || b\<close> with a left operand that may be undefined.\<close>

definition or_json :: "json_value option \<Rightarrow> json_value \<Rightarrow> json_value" where
  "or_json a b = (case a of None \<Rightarrow> b | Some v \<Rightarrow> if ToBoolean_json v then v else b)"

text \<open>
  What the function sees of the HTTP response: \<^verbatim>\<open>ok\<close>, \<^verbatim>\<open>status\<close>, and the outcome of
  \<^verbatim>\<open>response.json()\<close>, which rejects (\<open>Inl\<close>) when the body is not JSON and otherwise
  yields the parsed body.
\<close>

record http_response =
  ok :: bool
  status :: nat
  json :: "js_error + json_value"

text \<open>
  The outcome of \<^verbatim>\<open>await fetch(...)\<close>. A timeout is a rejection: after
  \<^verbatim>\<open>BACKEND_CONFIG.TIMEOUT\<close> milliseconds the timer calls \<^verbatim>\<open>controller.abort()\<close> and the
  pending fetch rejects with an error named \<^verbatim>\<open>AbortError\<close>.
\<close>

datatype fetch_outcome = Rejected js_error | Resolved http_response

text \<open>
  \<^verbatim>\<open>await response.json().catch(() => ({}))\<close>: the parsed body, or the empty object
  when the body does not parse.
\<close>

definition errorData :: "http_response \<Rightarrow> json_value" where
  "errorData response = (case json response of Inl _ \<Rightarrow> JObj [] | Inr body \<Rightarrow> body)"

text \<open>The body of the \<^verbatim>\<open>try\<close> block.\<close>

definition detect_try :: "(real \<Rightarrow> string) \<Rightarrow> fetch_outcome \<Rightarrow> js_error + json_value" where
  "detect_try num outcome =
     (case outcome of
        Rejected error \<Rightarrow> Inl error
      | Resolved response \<Rightarrow>
          if \<not> ok response then
            (case read_detail (errorData response) of
               Inl error \<Rightarrow> Inl error
             | Inr detail \<Rightarrow>
                 Inl (JsError ''Error''
                   (ToString_json num
                      (or_json detail
                         (JStr (''Detection failed: '' @ Number_toString (int (status response))))))))
          else json response)"

text \<open>The \<^verbatim>\<open>catch\<close> block turns an AbortError into the timeout error and rethrows the rest.\<close>

definition detectFoodItems :: "(real \<Rightarrow> string) \<Rightarrow> fetch_outcome \<Rightarrow> js_error + json_value" where
  "detectFoodItems num outcome =
     (case detect_try num outcome of
        Inl error \<Rightarrow>
          if error_name error = ''AbortError''
          then Inl (JsError ''Error'' ''Detection request timed out. Check if backend is running.'')
          else Inl error
      | Inr data \<Rightarrow> Inr data)"


section \<open>storageService.js\<close>

definition BUCKET :: string where
  "BUCKET = ''fridge-photos''"

text \<open>
  \<^verbatim>\<open>String.prototype.indexOf\<close>: the least position at which the marker occurs, or -1.
\<close>

fun indexOf :: "string \<Rightarrow> string \<Rightarrow> int" where
  "indexOf [] marker = (if marker = [] then 0 else - 1)"
| "indexOf (c # cs) marker =
     (if prefix marker (c # cs) then 0
      else (let k = indexOf cs marker in if k = - 1 then - 1 else k + 1))"

text \<open>\<^verbatim>\<open>String.prototype.substring\<close> with one argument, clamped to the string.\<close>

definition substring :: "string \<Rightarrow> int \<Rightarrow> string" where
  "substring s start = drop (nat start) s"

text \<open>
  A truthy argument that is not a string has no \<^verbatim>\<open>indexOf\<close> method: the call throws.
\<close>

definition getPathFromUrl :: "jsval \<Rightarrow> js_error + jsval" where
  "getPathFromUrl url =
     (if \<not> ToBoolean url then Inr Null
      else (case url of
              Str s \<Rightarrow>
                (let marker = BUCKET @ ''/'';
                     idx = indexOf s marker
                 in if idx = - 1 then Inr Null
                    else Inr (Str (substring s (idx + int (length marker)))))
            | _ \<Rightarrow> Inl (JsError ''TypeError'' ''url.indexOf is not a function'')))"


section \<open>Home.jsx\<close>

text \<open>
  JavaScript numbers, as far as \<^verbatim>\<open>handleUpdateAmount\<close> tells them apart: NaN, the two
  infinities, and the finite values, read as the real numbers they denote (both zeros are
  \<open>Finite 0\<close>; the sum of two finite values is taken exactly).
\<close>

datatype jsnum = NaN | NegInfinity | Finite real | Infinity

fun js_add :: "jsnum \<Rightarrow> jsnum \<Rightarrow> jsnum" where
  "js_add NaN _ = NaN"
| "js_add _ NaN = NaN"
| "js_add Infinity NegInfinity = NaN"
| "js_add NegInfinity Infinity = NaN"
| "js_add Infinity _ = Infinity"
| "js_add _ Infinity = Infinity"
| "js_add NegInfinity _ = NegInfinity"
| "js_add _ NegInfinity = NegInfinity"
| "js_add (Finite a) (Finite b) = Finite (a + b)"

fun Math_min :: "jsnum \<Rightarrow> jsnum \<Rightarrow> jsnum" where
  "Math_min NaN _ = NaN"
| "Math_min _ NaN = NaN"
| "Math_min NegInfinity _ = NegInfinity"
| "Math_min _ NegInfinity = NegInfinity"
| "Math_min Infinity b = b"
| "Math_min a Infinity = a"
| "Math_min (Finite a) (Finite b) = Finite (min a b)"

fun Math_max :: "jsnum \<Rightarrow> jsnum \<Rightarrow> jsnum" where
  "Math_max NaN _ = NaN"
| "Math_max _ NaN = NaN"
| "Math_max Infinity _ = Infinity"
| "Math_max _ Infinity = Infinity"
| "Math_max NegInfinity b = b"
| "Math_max a NegInfinity = a"
| "Math_max (Finite a) (Finite b) = Finite (max a b)"

text \<open>An item of the fridge slice: its \<^verbatim>\<open>id\<close> and \<^verbatim>\<open>amountLeft\<close>.\<close>

record fridge_item =
  fridge_id :: string
  amountLeft :: jsnum

datatype action = updateAmountLeft string jsnum | removeItem string

text \<open>
  What a handler does: it dispatches an action, or opens the confirmation dialog whose
  Remove button dispatches \<open>removeItem\<close> for the given id.
\<close>

datatype home_effect = Dispatch action | ConfirmRemove string

definition handleRemoveItem :: "string \<Rightarrow> home_effect list" where
  "handleRemoveItem id' = [ConfirmRemove id']"

definition handleUpdateAmount :: "fridge_item list \<Rightarrow> string \<Rightarrow> jsnum \<Rightarrow> home_effect list" where
  "handleUpdateAmount items id' change =
     (case find (\<lambda>i. fridge_id i = id') items of
        None \<Rightarrow> []
      | Some item \<Rightarrow>
          (let newAmount = Math_max (Finite 0) (Math_min (Finite 1) (js_add (amountLeft item) change))
           in if newAmount = Finite 0 then handleRemoveItem id'
              else [Dispatch (updateAmountLeft id' newAmount)]))"

text \<open>The half-open interval \<open>(0, 1]\<close> on JavaScript numbers.\<close>

fun in_unit_interval :: "jsnum \<Rightarrow> bool" where
  "in_unit_interval (Finite x) = (0 < x \<and> x \<le> 1)"
| "in_unit_interval _ = False"


section \<open>Scanner.jsx\<close>

subsection \<open>Dates\<close>

text \<open>
  A \<^verbatim>\<open>Date\<close> is its time value, in milliseconds since the epoch (UTC). The functions
  below are those of ECMA-262 (Date objects). A time zone is given by the two offsets the
  standard uses: the one in force at a UTC instant, and the one chosen for a local time.
\<close>

definition msPerDay :: int where
  "msPerDay = 86400000"

definition Day :: "int \<Rightarrow> int" where
  "Day t = t div msPerDay"

definition TimeWithinDay :: "int \<Rightarrow> int" where
  "TimeWithinDay t = t mod msPerDay"

definition MakeDate :: "int \<Rightarrow> int \<Rightarrow> int" where
  "MakeDate day time = day * msPerDay + time"

text \<open>TimeClip: a time value beyond the range of Date is NaN, an invalid date (\<open>None\<close>).\<close>

definition TimeClip :: "int \<Rightarrow> int option" where
  "TimeClip t = (if \<bar>t\<bar> > 8640000000000000 then None else Some t)"

record time_zone =
  offset_at :: "int \<Rightarrow> int"
  offset_of_local :: "int \<Rightarrow> int"

definition LocalTime :: "time_zone \<Rightarrow> int \<Rightarrow> int" where
  "LocalTime tz t = t + offset_at tz t"

definition UTC :: "time_zone \<Rightarrow> int \<Rightarrow> int" where
  "UTC tz t = t - offset_of_local tz t"

text \<open>
  \<^verbatim>\<open>d.setDate(d.getDate() + n)\<close> on a valid date: \<^verbatim>\<open>setDate\<close> rebuilds the local time
  from \<open>MakeDay (year, month, date + n)\<close> and the time within the day, and that day is the
  local day number plus \<open>n\<close>; the calendar fields themselves are not modelled.
\<close>

definition setDate_getDate_plus :: "time_zone \<Rightarrow> int \<Rightarrow> int \<Rightarrow> int option" where
  "setDate_getDate_plus tz t n =
     (let local = LocalTime tz t
      in TimeClip (UTC tz (MakeDate (Day local + n) (TimeWithinDay local))))"

text \<open>
  \<^verbatim>\<open>d.toISOString().split('T')[0]\<close>: the UTC calendar date, held as its day number;
  \<^verbatim>\<open>toISOString\<close> throws a RangeError on an invalid date.
\<close>

definition isoDate :: "int option \<Rightarrow> js_error + int" where
  "isoDate d = (case d of None \<Rightarrow> Inl (JsError ''RangeError'' ''Invalid time value'')
                | Some t \<Rightarrow> Inr (Day t))"

subsection \<open>handleAddToFridge\<close>

text \<open>The argument of \<^verbatim>\<open>addFridgeItem\<close>: the item handed to persistence.\<close>

record new_item =
  new_name :: jsval
  new_category :: jsval
  expiryDate :: int
  new_amountLeft :: nat
  quantity :: nat
  new_unit :: string
  new_notes :: string
  imageUrl :: jsval
  imagePath :: jsval

text \<open>
  What the handler reads from its surroundings: the authentication flag, the captured
  photo (null or a base64 string), the outcome of \<^verbatim>\<open>uploadItemImage\<close> (url and path), the
  clock and time zone seen by \<^verbatim>\<open>new Date()\<close>, and the error, if any, with which the
  unwrapped dispatch rejects.
\<close>

record add_env =
  isAuthenticated :: bool
  capturedBase64 :: jsval
  upload :: "js_error + string \<times> string"
  now :: int
  zone :: time_zone
  unwrap :: "js_error option"

datatype scanner_effect =
    Alert string string
  | DispatchAddFridgeItem new_item
  | RemoveDetected string

text \<open>
  The \<^verbatim>\<open>catch\<close> block; errors carry no \<^verbatim>\<open>payload\<close> property, which reads as undefined.
\<close>

definition add_failed :: "js_error \<Rightarrow> scanner_effect list" where
  "add_failed err =
     [Alert ''Error''
        (ToString (js_or (js_or (Str (error_message err)) Undefined) (Str ''Failed to add item'')))]"

definition handleAddToFridge :: "add_env \<Rightarrow> inventory_record \<Rightarrow> scanner_effect list" where
  "handleAddToFridge env item =
     (if \<not> isAuthenticated env
      then [Alert ''Not signed in'' ''Please sign in to add items to your fridge.'']
      else
        (case (if ToBoolean (capturedBase64 env)
               then (case upload env of
                       Inl err \<Rightarrow> Inl err
                     | Inr (url, path) \<Rightarrow> Inr (Str url, Str path))
               else Inr (Undefined, Undefined)) of
           Inl err \<Rightarrow> add_failed err
         | Inr (imageUrl', imagePath') \<Rightarrow>
             (case isoDate (setDate_getDate_plus (zone env) (now env) 7) of
                Inl err \<Rightarrow> add_failed err
              | Inr expiry \<Rightarrow>
                  DispatchAddFridgeItem
                    \<lparr> new_name = Str (rec_name item),
                      new_category = rec_category item,
                      expiryDate = expiry,
                      new_amountLeft = 100,
                      quantity = 1,
                      new_unit = ''item'',
                      new_notes = (if ToBoolean (ocrText item)
                               then ''OCR: '' @ ToString (ocrText item) else []),
                      imageUrl = imageUrl',
                      imagePath = imagePath' \<rparr>
                  # (case unwrap env of
                       Some err \<Rightarrow> add_failed err
                     | None \<Rightarrow>
                         [RemoveDetected (rec_id item),
                          Alert ''Added!'' (rec_name item @ '' added to your fridge'')]))))"

text \<open>
  Offsets from UTC of at most a day in either direction (the zones in use lie between
  -12 and +14 hours).
\<close>

definition zone_within_a_day :: "time_zone \<Rightarrow> bool" where
  "zone_within_a_day tz =
     (\<forall>t. \<bar>offset_at tz t\<bar> \<le> msPerDay \<and> \<bar>offset_of_local tz t\<bar> \<le> msPerDay)"


section \<open>Sample inputs\<close>

definition sample_clock :: "nat \<Rightarrow> int" where
  "sample_clock k = 1000 + int k"

definition apple :: detected_item where
  "apple = \<lparr> category = ''fruit'', label = ''apple'', confidence = 0.91, extra = Null \<rparr>"

definition milk :: detected_item where
  "milk = \<lparr> category = ''packaged'', label = ''Milk Packet'', confidence = 0.85,
             extra = Str ''AMUL MILK'' \<rparr>"

definition unnamed_region :: detected_item where
  "unnamed_region = \<lparr> category = ''packaged'', label = [], confidence = 0.85, extra = Str [] \<rparr>"

definition india :: time_zone where
  "india = \<lparr> offset_at = (\<lambda>t. 19800000), offset_of_local = (\<lambda>t. 19800000) \<rparr>"


definition gadget :: detected_item where
  "gadget = \<lparr> category = ''constructor'', label = ''gadget'', confidence = 0.5, extra = Null \<rparr>"

definition postdated_record :: inventory_record where
  "postdated_record =
     \<lparr> rec_id = ''detected-1000-0'', rec_name = ''Milk Packet'', rec_category = Str ''packaged'',
       rec_confidence = 0.85, ocrText = Str ''AMUL MILK'', detectedAt = 1702592000000 \<rparr>"

definition half_full :: fridge_item where
  "half_full = \<lparr> fridge_id = ''item-1'', amountLeft = Finite (1 / 2) \<rparr>"

definition milk_record :: inventory_record where
  "milk_record =
     \<lparr> rec_id = ''detected-1000-0'', rec_name = ''Milk Packet'', rec_category = Str ''packaged'',
       rec_confidence = 0.85, ocrText = Str ''AMUL MILK'', detectedAt = 1699999990000 \<rparr>"

definition signed_in :: add_env where
  "signed_in =
     \<lparr> isAuthenticated = True,
       capturedBase64 = Str ''/9j/4AAQSkZJRg=='',
       upload = Inr (''https://db.example.co/storage/v1/object/public/fridge-photos/user-1/1700000000000.jpg'',
                     ''user-1/1700000000000.jpg''),
       now = 1700000000000,
       zone = india,
       unwrap = None \<rparr>"

section \<open>Properties of detectionService.js\<close>

subsection \<open>The list built by processDetectionResults\<close>

lemma length_processDetectionResults:
  "length (processDetectionResults clock r) = length (detected_items r)"
  by (simp add: processDetectionResults_def)

lemma processDetectionResults_nth:
  "i < length (detected_items r) \<Longrightarrow>
   processDetectionResults clock r ! i = formatItem clock i (detected_items r ! i)"
  by (simp add: processDetectionResults_def nth_enumerate_eq)

lemma map_processDetectionResults:
  "map f (processDetectionResults clock r) =
   map (\<lambda>(index, item). f (formatItem clock index item)) (enumerate 0 (detected_items r))"
  by (simp add: processDetectionResults_def split_def comp_def)

lemma map_enumerate_item: "map (\<lambda>(index, item). g item) (enumerate n xs) = map g xs"
  by (induction xs arbitrary: n) simp_all

lemma set_processDetectionResults:
  assumes "rec \<in> set (processDetectionResults clock r)"
  obtains i where "i < length (detected_items r)"
    and "rec = formatItem clock i (detected_items r ! i)"
proof -
  from assms obtain i where "i < length (processDetectionResults clock r)"
    and "processDetectionResults clock r ! i = rec"
    by (auto simp: in_set_conv_nth)
  then show thesis
    using that [of i] by (simp add: length_processDetectionResults processDetectionResults_nth)
qed

subsection \<open>mapCategory\<close>

lemma mapCategory_table:
  "mapCategory ''fruit'' = Str ''fruits''"
  "mapCategory ''vegetable'' = Str ''vegetables''"
  "mapCategory ''packaged'' = Str ''packaged''"
  by (simp_all add: mapCategory_def Get_def categoryMap_def js_or_def)

lemma mapCategory_not_inherited:
  "backendCategory \<notin> set (map fst Object_prototype) \<Longrightarrow>
   mapCategory backendCategory =
     (case map_of categoryMap backendCategory of Some v \<Rightarrow> v | None \<Rightarrow> Str ''other'')"
  by (simp add: mapCategory_def Get_def categoryMap_def Object_prototype_def js_or_def)

lemma mapCategory_range:
  "backendCategory \<notin> set (map fst Object_prototype) \<Longrightarrow>
   mapCategory backendCategory \<in> {Str ''fruits'', Str ''vegetables'', Str ''packaged'', Str ''other''}"
  by (simp add: mapCategory_def Get_def categoryMap_def Object_prototype_def js_or_def)

text \<open>
  C1, as the code has it. processDetectionResults validates nothing and drops nothing:
  a batch of N detected items yields N records, and the i-th record is valid (non-empty
  name, confidence in \<open>[0, 1]\<close>) exactly when the i-th item is. A batch with exactly one
  invalid item therefore yields its N-1 valid records together with the invalid one, and
  no item makes the call fail for the others.
\<close>

theorem processDetectionResults_keeps_invalid:
  "map valid_record (processDetectionResults clock r) = map valid_item (detected_items r)"
  by (simp add: map_processDetectionResults formatItem_def valid_record_def valid_item_def
      map_enumerate_item)

text \<open>
  C1, as stated, fails: of the two items below exactly one is invalid (its name is
  empty), and the call returns two records, the second of them invalid, where the claim
  has one record.
\<close>

theorem processDetectionResults_drop_counterexample:
  "map valid_item [apple, unnamed_region] = [True, False] \<and>
   length (processDetectionResults sample_clock \<lparr>detected_items = [apple, unnamed_region]\<rparr>) = 2 \<and>
   map valid_record (processDetectionResults sample_clock \<lparr>detected_items = [apple, unnamed_region]\<rparr>)
     = [True, False]"
  by (simp add: processDetectionResults_def formatItem_def valid_record_def valid_item_def
      apple_def unnamed_region_def)

text \<open>
  Apart from the inherited names, the category of each record is one of the application's
  four names, item by item.
\<close>

lemma rec_category_not_inherited:
  assumes "i < length (detected_items r)"
    and "category (detected_items r ! i) \<notin> set (map fst Object_prototype)"
  shows "rec_category (processDetectionResults clock r ! i)
           \<in> {Str ''fruits'', Str ''vegetables'', Str ''packaged'', Str ''other''}"
  using assms mapCategory_range [of "category (detected_items r ! i)"]
  by (simp add: processDetectionResults_nth formatItem_def)

text \<open>
  C2 at a detected item whose category is constructor. The record built for it has the
  inherited function Object as its category: a value that is not a member of the enum
  fruit, vegetable, packaged, other, nor of the application's spelling of it (fruits,
  vegetables, packaged, other). The item before it in the same batch is mapped as the
  table says.
\<close>

theorem category_constructor_outside_enum:
  "map rec_category (processDetectionResults sample_clock \<lparr>detected_items = [apple, gadget]\<rparr>)
     = [Str ''fruits'', NativeFunction ''Object''] \<and>
   NativeFunction ''Object'' \<notin> {Str ''fruit'', Str ''vegetable'', Str ''packaged'', Str ''other''} \<and>
   NativeFunction ''Object'' \<notin> {Str ''fruits'', Str ''vegetables'', Str ''packaged'', Str ''other''}"
  by (simp add: processDetectionResults_def formatItem_def apple_def gadget_def mapCategory_table
      mapCategory_def Get_def categoryMap_def Object_prototype_def js_or_def)

text \<open>
  C3 at the input constructor: the string is not a key of the table, and mapCategory
  returns the function inherited under that name, not other.
\<close>

theorem mapCategory_constructor:
  "map_of categoryMap ''constructor'' = None \<and>
   mapCategory ''constructor'' = NativeFunction ''Object'' \<and>
   mapCategory ''constructor'' \<noteq> Str ''other''"
  by (simp add: mapCategory_def Get_def categoryMap_def Object_prototype_def js_or_def)

text \<open>
  C4. processDetectionResults returns one record per detected item, in detection order:
  the names of the records are the labels of the items and their confidences are the
  items' confidences, position by position.
\<close>

theorem processDetectionResults_order:
  "length (processDetectionResults clock r) = length (detected_items r) \<and>
   map rec_name (processDetectionResults clock r) = map label (detected_items r) \<and>
   map rec_confidence (processDetectionResults clock r) = map confidence (detected_items r)"
  by (simp add: length_processDetectionResults map_processDetectionResults formatItem_def
      map_enumerate_item)


subsection \<open>Record ids\<close>

lemma digit_char_not_minus: "d < 10 \<Longrightarrow> digit_char d \<noteq> CHR ''-''"
proof
  assume d: "d < 10" and eq: "digit_char d = CHR ''-''"
  from eq have "(of_char (digit_char d) :: nat) = of_char (CHR ''-'')" by simp
  with d show False by (simp add: digit_char_def)
qed

lemma digit_char_inj: "a < 10 \<Longrightarrow> b < 10 \<Longrightarrow> digit_char a = digit_char b \<Longrightarrow> a = b"
proof -
  assume a: "a < 10" and b: "b < 10" and eq: "digit_char a = digit_char b"
  from eq have "(of_char (digit_char a) :: nat) = of_char (digit_char b)" by simp
  with a b show "a = b" by (simp add: digit_char_def)
qed

lemma digits_not_Nil: "digits n \<noteq> []"
  by (subst digits.simps) simp

lemma digits_no_minus: "CHR ''-'' \<notin> set (digits n)"
proof (induction n rule: digits.induct)
  case (1 n)
  show ?case
  proof (cases "n < 10")
    case True
    then show ?thesis
      using digit_char_not_minus [of n] by (subst digits.simps) auto
  next
    case False
    then show ?thesis
      using 1 digit_char_not_minus [of "n mod 10"] by (subst digits.simps) auto
  qed
qed

lemma digits_inj: "digits m = digits n \<Longrightarrow> m = n"
proof (induction m arbitrary: n rule: digits.induct)
  case (1 m)
  show ?case
  proof (cases "m < 10")
    case True
    then have dm: "digits m = [digit_char m]" by (subst digits.simps) simp
    have "n < 10"
    proof (rule ccontr)
      assume "\<not> n < 10"
      then have "digits n = digits (n div 10) @ [digit_char (n mod 10)]"
        by (subst digits.simps) simp
      with dm "1.prems" digits_not_Nil [of "n div 10"] show False by simp
    qed
    then have "digits n = [digit_char n]" by (subst digits.simps) simp
    with dm "1.prems" True \<open>n < 10\<close> show ?thesis by (simp add: digit_char_inj)
  next
    case False
    then have dm: "digits m = digits (m div 10) @ [digit_char (m mod 10)]"
      by (subst digits.simps) simp
    have "\<not> n < 10"
    proof
      assume "n < 10"
      then have "digits n = [digit_char n]" by (subst digits.simps) simp
      with dm "1.prems" digits_not_Nil [of "m div 10"] show False by simp
    qed
    then have dn: "digits n = digits (n div 10) @ [digit_char (n mod 10)]"
      by (subst digits.simps) simp
    from dm dn "1.prems" have q: "digits (m div 10) = digits (n div 10)"
      and r: "digit_char (m mod 10) = digit_char (n mod 10)" by simp_all
    from "1.IH" [OF False q] have "m div 10 = n div 10" .
    moreover from r have "m mod 10 = n mod 10" by (simp add: digit_char_inj)
    ultimately show ?thesis by (metis div_mult_mod_eq)
  qed
qed

text \<open>The index is what follows the last hyphen of an id.\<close>

lemma index_field:
  "takeWhile (\<lambda>c. c \<noteq> CHR ''-'') (rev (a @ ''-'' @ digits i)) = rev (digits i)"
proof -
  have "takeWhile (\<lambda>c. c \<noteq> CHR ''-'') (rev (digits i) @ CHR ''-'' # rev a) = rev (digits i)"
    using digits_no_minus [of i] by (subst takeWhile_append2) auto
  then show ?thesis by simp
qed

lemma rec_id_index:
  assumes "rec_id (formatItem clock i x) = rec_id (formatItem clock j y)"
  shows "i = j"
proof -
  let ?a = "\<lambda>k. ''detected-'' @ Number_toString (clock (2 * k))"
  have "rec_id (formatItem clock i x) = ?a i @ ''-'' @ digits i"
    and "rec_id (formatItem clock j y) = ?a j @ ''-'' @ digits j"
    by (simp_all add: formatItem_def Number_toString_def)
  with assms have "?a i @ ''-'' @ digits i = ?a j @ ''-'' @ digits j" by simp
  then have "rev (digits i) = rev (digits j)"
    using index_field [of "?a i" i] index_field [of "?a j" j] by simp
  then show ?thesis by (simp add: digits_inj)
qed

text \<open>
  C5. Within one call of processDetectionResults the ids of the returned records are
  pairwise distinct, for every list of detected items and whatever the clock reads at
  each item (in particular when it reads the same value throughout).
\<close>

theorem processDetectionResults_ids_distinct:
  "distinct (map rec_id (processDetectionResults clock r))"
proof -
  have "rec_id (processDetectionResults clock r ! i) \<noteq> rec_id (processDetectionResults clock r ! j)"
    if "i < length (detected_items r)" "j < length (detected_items r)" "i \<noteq> j" for i j
    using that rec_id_index [of clock i _ j] by (auto simp: processDetectionResults_nth)
  then show ?thesis
    by (simp add: distinct_conv_nth length_processDetectionResults)
qed

subsection \<open>OCR text\<close>

text \<open>
  C8. For every detected item, the ocrText of its record is never the empty string; an
  extra that is missing, null or the empty string gives null; a non-empty string is kept;
  so for an extra that is a string, null or missing, ocrText is null or a non-empty string.
\<close>

theorem ocrText_normalised:
  assumes "i < length (detected_items r)"
  shows "ocrText (processDetectionResults clock r ! i) \<noteq> Str [] \<and>
         (extra (detected_items r ! i) \<in> {Undefined, Null, Str []} \<longrightarrow>
            ocrText (processDetectionResults clock r ! i) = Null) \<and>
         (\<forall>s. extra (detected_items r ! i) = Str s \<and> s \<noteq> [] \<longrightarrow>
            ocrText (processDetectionResults clock r ! i) = Str s) \<and>
         (extra (detected_items r ! i) \<in> {Undefined, Null} \<union> range Str \<longrightarrow>
            ocrText (processDetectionResults clock r ! i) = Null \<or>
            (\<exists>s. s \<noteq> [] \<and> ocrText (processDetectionResults clock r ! i) = Str s))"
proof -
  have eq: "ocrText (processDetectionResults clock r ! i) = js_or (extra (detected_items r ! i)) Null"
    using assms by (simp add: processDetectionResults_nth formatItem_def)
  show ?thesis
    unfolding eq by (cases "extra (detected_items r ! i)") (auto simp: js_or_def)
qed

theorem ocrText_normalised_witness:
  "0 < length (detected_items \<lparr>detected_items = [milk, unnamed_region, apple]\<rparr>) \<and>
   extra milk = Str ''AMUL MILK'' \<and>
   ocrText (processDetectionResults sample_clock \<lparr>detected_items = [milk, unnamed_region, apple]\<rparr> ! 0)
     = Str ''AMUL MILK'' \<and>
   1 < length (detected_items \<lparr>detected_items = [milk, unnamed_region, apple]\<rparr>) \<and>
   extra unnamed_region = Str [] \<and>
   ocrText (processDetectionResults sample_clock \<lparr>detected_items = [milk, unnamed_region, apple]\<rparr> ! 1)
     = Null"
proof -
  let ?r = "\<lparr>detected_items = [milk, unnamed_region, apple]\<rparr>"
  have h0: "0 < length (detected_items ?r)" and h1: "1 < length (detected_items ?r)"
    by simp_all
  have e0: "extra (detected_items ?r ! 0) = Str ''AMUL MILK''"
    and e1: "extra (detected_items ?r ! 1) = Str []"
    by (simp_all add: milk_def unnamed_region_def)
  from ocrText_normalised [OF h0, of sample_clock] ocrText_normalised [OF h1, of sample_clock]
    h0 h1 e0 e1
  show ?thesis by (simp add: milk_def unnamed_region_def)
qed

section \<open>Properties of storageService.js\<close>

lemma indexOf_absent: "\<not> sublist marker s \<Longrightarrow> indexOf s marker = - 1"
proof (induction s)
  case Nil
  then show ?case by (cases marker) simp_all
next
  case (Cons c cs)
  then show ?case by (simp add: sublist_Cons_right)
qed

lemma indexOf_first:
  assumes "prefix marker rest"
    and "\<forall>k < length pre. \<not> prefix marker (drop k (pre @ rest))"
  shows "indexOf (pre @ rest) marker = int (length pre)"
  using assms
proof (induction pre)
  case Nil
  then show ?case by (cases rest) simp_all
next
  case (Cons c pre)
  from Cons.prems(2) have here: "\<not> prefix marker (c # pre @ rest)"
    by (metis append_Cons drop0 length_greater_0_conv list.distinct(1))
  have "\<forall>k < length pre. \<not> prefix marker (drop k (pre @ rest))"
  proof (intro allI impI)
    fix k assume "k < length pre"
    then have "Suc k < length (c # pre)" by simp
    with Cons.prems(2) have "\<not> prefix marker (drop (Suc k) ((c # pre) @ rest))" by blast
    then show "\<not> prefix marker (drop k (pre @ rest))" by simp
  qed
  with Cons.IH Cons.prems(1) have "indexOf (pre @ rest) marker = int (length pre)" by blast
  with here show ?case by simp
qed

lemma prefix_nth: "prefix xs ys \<Longrightarrow> i < length xs \<Longrightarrow> ys ! i = xs ! i"
  by (auto simp: prefix_def nth_append)

text \<open>
  A marker whose last character occurs nowhere else in it cannot start inside a text
  that does not contain it and end inside a copy of itself that follows the text.
\<close>

lemma marker_no_overlap:
  assumes c: "c \<notin> set b"
    and free: "\<not> sublist (b @ [c]) pre"
    and k: "k < length pre"
  shows "\<not> prefix (b @ [c]) (drop k (pre @ (b @ [c]) @ path))"
proof
  let ?m = "b @ [c]"
  let ?p = "drop k pre"
  assume "prefix ?m (drop k (pre @ ?m @ path))"
  with k have pre: "prefix ?m (?p @ ?m @ path)" by simp
  from k have p_pos: "0 < length ?p" by simp
  show False
  proof (cases "length ?m \<le> length ?p")
    case True
    with pre have "prefix ?m ?p"
      by (metis prefix_append prefix_length_prefix prefix_order.order_refl prefix_def)
    then have "sublist ?m pre"
      by (metis append_take_drop_id prefix_def sublist_appendI)
    with free show False by contradiction
  next
    case False
    then have short: "length ?p \<le> length b" by simp
    from pre have "(?p @ ?m @ path) ! length b = ?m ! length b"
      by (rule prefix_nth) simp
    then have "(?p @ ?m @ path) ! length b = c" by simp
    moreover have idx: "length b - length ?p < length b"
      using short p_pos by linarith
    moreover have "(?p @ ?m @ path) ! length b = (?m @ path) ! (length b - length ?p)"
      using short by (subst nth_append) simp
    moreover have "(?m @ path) ! (length b - length ?p) = b ! (length b - length ?p)"
      using idx by (simp only: append_assoc nth_append if_True)
    ultimately have "b ! (length b - length ?p) = c" by simp
    with idx have "c \<in> set b" by (metis nth_mem)
    with c show False by contradiction
  qed
qed

lemma indexOf_marker:
  assumes "\<not> sublist (BUCKET @ ''/'') base"
  shows "indexOf (base @ BUCKET @ ''/'' @ path) (BUCKET @ ''/'') = int (length base)"
proof -
  have c: "CHR ''/'' \<notin> set BUCKET" by (simp add: BUCKET_def)
  have "\<forall>k < length base.
          \<not> prefix (BUCKET @ ''/'') (drop k (base @ (BUCKET @ ''/'') @ path))"
    using marker_no_overlap [OF c assms] by blast
  moreover have "prefix (BUCKET @ ''/'') ((BUCKET @ ''/'') @ path)" by simp
  ultimately have "indexOf (base @ (BUCKET @ ''/'') @ path) (BUCKET @ ''/'') = int (length base)"
    by (rule indexOf_first [rotated])
  then show ?thesis by simp
qed

text \<open>
  C10. For every URL of the form base + "fridge-photos/" + path whose base does not
  contain "fridge-photos/", getPathFromUrl returns exactly path, so it undoes the public
  URL that uploadItemImage returns for a path; for null, for undefined and for every URL
  that does not contain "fridge-photos/" it returns null.
\<close>

theorem getPathFromUrl_roundtrip:
  "(\<not> sublist (BUCKET @ ''/'') base \<longrightarrow>
      getPathFromUrl (Str (base @ BUCKET @ ''/'' @ path)) = Inr (Str path)) \<and>
   getPathFromUrl Null = Inr Null \<and>
   getPathFromUrl Undefined = Inr Null \<and>
   (\<not> sublist (BUCKET @ ''/'') url \<longrightarrow> getPathFromUrl (Str url) = Inr Null)"
proof (intro conjI impI)
  assume free: "\<not> sublist (BUCKET @ ''/'') base"
  have "indexOf (base @ BUCKET @ ''/'' @ path) (BUCKET @ ''/'') = int (length base)"
    using free by (rule indexOf_marker)
  then show "getPathFromUrl (Str (base @ BUCKET @ ''/'' @ path)) = Inr (Str path)"
    by (simp add: getPathFromUrl_def substring_def Let_def BUCKET_def nat_add_distrib)
next
  show "getPathFromUrl Null = Inr Null" by (simp add: getPathFromUrl_def)
next
  show "getPathFromUrl Undefined = Inr Null" by (simp add: getPathFromUrl_def)
next
  assume "\<not> sublist (BUCKET @ ''/'') url"
  then have "indexOf url (BUCKET @ ''/'') = - 1" by (rule indexOf_absent)
  then show "getPathFromUrl (Str url) = Inr Null"
    by (simp add: getPathFromUrl_def Let_def)
qed

theorem getPathFromUrl_roundtrip_witness:
  "\<not> sublist (BUCKET @ ''/'') ''https://db.example.co/storage/v1/object/public/'' \<and>
   getPathFromUrl (Str (''https://db.example.co/storage/v1/object/public/'' @ BUCKET @ ''/''
       @ ''user-1/1700000000000.jpg'')) = Inr (Str ''user-1/1700000000000.jpg'') \<and>
   \<not> sublist (BUCKET @ ''/'') ''https://db.example.co/logo.png'' \<and>
   getPathFromUrl (Str ''https://db.example.co/logo.png'') = Inr Null"
proof -
  have b: "\<not> sublist (BUCKET @ ''/'') ''https://db.example.co/storage/v1/object/public/''"
    by (simp add: BUCKET_def sublist_Cons_right)
  have u: "\<not> sublist (BUCKET @ ''/'') ''https://db.example.co/logo.png''"
    by (simp add: BUCKET_def sublist_Cons_right)
  from b u
    getPathFromUrl_roundtrip [of "''https://db.example.co/storage/v1/object/public/''"
      "''user-1/1700000000000.jpg''" "''https://db.example.co/logo.png''"]
  show ?thesis by blast
qed

section \<open>Properties of Home.jsx\<close>

lemma clamp_unit:
  "s \<noteq> NaN \<Longrightarrow> \<exists>x. Math_max (Finite 0) (Math_min (Finite 1) s) = Finite x \<and> 0 \<le> x \<and> x \<le> 1"
  by (cases s) simp_all

lemma clamp_NaN: "Math_max (Finite 0) (Math_min (Finite 1) NaN) = NaN"
  by simp

text \<open>
  C9, as the code has it. When no item has the id, handleUpdateAmount does nothing. For
  every item and every change whose sum \<open>item.amountLeft + change\<close> is not NaN, it either
  dispatches the single action updateAmountLeft with an amount in the half-open interval
  \<open>(0, 1]\<close>, or (when the clamped amount is exactly 0) opens the removal of the item and
  dispatches no update.
\<close>

theorem handleUpdateAmount_clamped:
  "(find (\<lambda>i. fridge_id i = id') items = None \<longrightarrow> handleUpdateAmount items id' change = []) \<and>
   (\<forall>item. find (\<lambda>i. fridge_id i = id') items = Some item \<and>
           js_add (amountLeft item) change \<noteq> NaN \<longrightarrow>
      handleUpdateAmount items id' change = [ConfirmRemove id'] \<or>
      (\<exists>a. in_unit_interval a \<and>
           handleUpdateAmount items id' change = [Dispatch (updateAmountLeft id' a)]))"
proof (intro conjI allI impI)
  assume "find (\<lambda>i. fridge_id i = id') items = None"
  then show "handleUpdateAmount items id' change = []"
    by (simp add: handleUpdateAmount_def)
next
  fix item
  assume h: "find (\<lambda>i. fridge_id i = id') items = Some item \<and>
             js_add (amountLeft item) change \<noteq> NaN"
  let ?new = "Math_max (Finite 0) (Math_min (Finite 1) (js_add (amountLeft item) change))"
  from h clamp_unit obtain x where x: "?new = Finite x" "0 \<le> x" "x \<le> 1" by blast
  show "handleUpdateAmount items id' change = [ConfirmRemove id'] \<or>
        (\<exists>a. in_unit_interval a \<and>
             handleUpdateAmount items id' change = [Dispatch (updateAmountLeft id' a)])"
  proof (cases "x = 0")
    case True
    with h x have "handleUpdateAmount items id' change = [ConfirmRemove id']"
      by (simp add: handleUpdateAmount_def handleRemoveItem_def)
    then show ?thesis ..
  next
    case False
    with h x have "handleUpdateAmount items id' change = [Dispatch (updateAmountLeft id' (Finite x))]"
      by (simp add: handleUpdateAmount_def)
    moreover from False x have "in_unit_interval (Finite x)" by simp
    ultimately show ?thesis by blast
  qed
qed

theorem handleUpdateAmount_clamped_witness:
  "find (\<lambda>i. fridge_id i = ''item-1'') [half_full] = Some half_full \<and>
   js_add (amountLeft half_full) (Finite (1 / 4)) \<noteq> NaN \<and>
   handleUpdateAmount [half_full] ''item-1'' (Finite (1 / 4))
     = [Dispatch (updateAmountLeft ''item-1'' (Finite (3 / 4)))] \<and>
   in_unit_interval (Finite (3 / 4)) \<and>
   js_add (amountLeft half_full) (Finite (- 1)) \<noteq> NaN \<and>
   handleUpdateAmount [half_full] ''item-1'' (Finite (- 1)) = [ConfirmRemove ''item-1''] \<and>
   find (\<lambda>i. fridge_id i = ''item-2'') [half_full] = None \<and>
   handleUpdateAmount [half_full] ''item-2'' (Finite (1 / 4)) = []"
proof -
  have f: "find (\<lambda>i. fridge_id i = ''item-1'') [half_full] = Some half_full"
    and n: "find (\<lambda>i. fridge_id i = ''item-2'') [half_full] = None"
    by (simp_all add: half_full_def)
  have s1: "js_add (amountLeft half_full) (Finite (1 / 4)) \<noteq> NaN"
    and s2: "js_add (amountLeft half_full) (Finite (- 1)) \<noteq> NaN"
    by (simp_all add: half_full_def)
  have up: "handleUpdateAmount [half_full] ''item-1'' (Finite (1 / 4))
              = [Dispatch (updateAmountLeft ''item-1'' (Finite (3 / 4)))]"
    by (simp add: handleUpdateAmount_def half_full_def)
  have rm: "handleUpdateAmount [half_full] ''item-1'' (Finite (- 1)) = [ConfirmRemove ''item-1'']"
    by (simp add: handleUpdateAmount_def handleRemoveItem_def half_full_def)
  from f n s1 s2 up rm
    handleUpdateAmount_clamped [of "''item-1''" "[half_full]" "Finite (1 / 4)"]
    handleUpdateAmount_clamped [of "''item-2''" "[half_full]" "Finite (1 / 4)"]
  show ?thesis by simp
qed

text \<open>
  C9, as stated, fails: with a change of NaN the clamp yields NaN, which is not 0, so
  updateAmountLeft is dispatched with the amount NaN, outside \<open>(0, 1]\<close>.
\<close>

theorem handleUpdateAmount_NaN_counterexample:
  "handleUpdateAmount [half_full] ''item-1'' NaN = [Dispatch (updateAmountLeft ''item-1'' NaN)] \<and>
   \<not> in_unit_interval NaN"
  by (simp add: handleUpdateAmount_def half_full_def)

section \<open>Properties of detectFoodItems\<close>




text \<open>A non-ok response whose body parses to null fails at the read of its detail.\<close>

lemma detectFoodItems_null_body:
  "\<not> ok response \<Longrightarrow> json response = Inr JNull \<Longrightarrow>
   detectFoodItems num (Resolved response)
     = Inl (JsError ''TypeError'' ''Cannot read property detail of null'')"
  by (simp add: detectFoodItems_def detect_try_def errorData_def read_detail_def)

text \<open>The body is null exactly when the read of its detail throws.\<close>

lemma read_detail_throws: "(\<exists>error. read_detail body = Inl error) \<longleftrightarrow> body = JNull"
  by (cases body) (simp_all add: read_detail_def)





section \<open>Properties of Scanner.jsx\<close>

lemma MakeDate_Day_plus: "MakeDate (Day t + n) (TimeWithinDay t) = t + n * msPerDay"
  by (simp add: MakeDate_def Day_def TimeWithinDay_def algebra_simps)

lemma Day_mono: "a \<le> b \<Longrightarrow> Day a \<le> Day b"
  by (simp add: Day_def msPerDay_def zdiv_mono1)

lemma Day_plus_days: "Day (t + n * msPerDay) = Day t + n"
  by (simp add: Day_def msPerDay_def)

lemma setDate_getDate_plus_value:
  assumes "setDate_getDate_plus tz t n = Some u"
  shows "u = t + offset_at tz t + n * msPerDay
               - offset_of_local tz (t + offset_at tz t + n * msPerDay)"
  using assms
  by (simp add: setDate_getDate_plus_def Let_def TimeClip_def UTC_def LocalTime_def
      MakeDate_Day_plus split: if_splits)

lemma handleAddToFridge_dispatch:
  assumes "DispatchAddFridgeItem p \<in> set (handleAddToFridge env item)"
  obtains u where "setDate_getDate_plus (zone env) (now env) 7 = Some u"
    and "expiryDate p = Day u" and "new_name p = Str (rec_name item)"
    and "isAuthenticated env"
  using assms
  by (auto simp: handleAddToFridge_def add_failed_def isoDate_def
      split: if_splits sum.splits option.splits prod.splits)

text \<open>
  C6, as the code has it. Every item that handleAddToFridge hands to addFridgeItem
  carries the name of the detected record, a string and so neither null nor undefined,
  and an expiry date anchored on the add, not on the detection: the handler never reads
  detectedAt, and the expiry date is at least 5 days after the date of the add (7 local
  calendar days ahead of it, with offsets from UTC of at most a day), so the horizon
  counted from the add is never negative. The expiry date is no earlier than the item's
  detection date whenever the item was detected no later than it is added. Dates are UTC
  calendar days.
\<close>

theorem handleAddToFridge_expiry:
  assumes "DispatchAddFridgeItem p \<in> set (handleAddToFridge env item)"
    and "zone_within_a_day (zone env)"
  shows "new_name p = Str (rec_name item) \<and>
         new_name p \<noteq> Null \<and> new_name p \<noteq> Undefined \<and>
         Day (now env) + 5 \<le> expiryDate p \<and>
         (detectedAt item \<le> now env \<longrightarrow> Day (detectedAt item) \<le> expiryDate p)"
proof -
  from assms(1) obtain u where u: "setDate_getDate_plus (zone env) (now env) 7 = Some u"
    and e: "expiryDate p = Day u" and n: "new_name p = Str (rec_name item)"
    by (rule handleAddToFridge_dispatch)
  let ?o1 = "offset_at (zone env) (now env)"
  let ?o2 = "offset_of_local (zone env) (now env + ?o1 + 7 * msPerDay)"
  from u have "u = now env + ?o1 + 7 * msPerDay - ?o2"
    by (rule setDate_getDate_plus_value)
  moreover from assms(2) have "\<bar>?o1\<bar> \<le> msPerDay" and "\<bar>?o2\<bar> \<le> msPerDay"
    by (simp_all add: zone_within_a_day_def)
  ultimately have "now env + 5 * msPerDay \<le> u" by linarith
  then have "Day (now env + 5 * msPerDay) \<le> Day u" by (rule Day_mono)
  then have "Day (now env) + 5 \<le> Day u" by (simp only: Day_plus_days)
  then have horizon: "Day (now env) + 5 \<le> expiryDate p" using e by simp
  have "Day (detectedAt item) \<le> expiryDate p" if "detectedAt item \<le> now env"
  proof -
    from that have "Day (detectedAt item) \<le> Day (now env)" by (rule Day_mono)
    with horizon show ?thesis by simp
  qed
  with horizon n show ?thesis by simp
qed

theorem handleAddToFridge_expiry_witness:
  "handleAddToFridge signed_in milk_record =
     [DispatchAddFridgeItem
        \<lparr> new_name = Str ''Milk Packet'', new_category = Str ''packaged'', expiryDate = 19682,
          new_amountLeft = 100, quantity = 1, new_unit = ''item'',
          new_notes = ''OCR: AMUL MILK'',
          imageUrl = Str ''https://db.example.co/storage/v1/object/public/fridge-photos/user-1/1700000000000.jpg'',
          imagePath = Str ''user-1/1700000000000.jpg'' \<rparr>,
      RemoveDetected ''detected-1000-0'',
      Alert ''Added!'' ''Milk Packet added to your fridge''] \<and>
   zone_within_a_day (zone signed_in) \<and>
   detectedAt milk_record \<le> now signed_in \<and>
   Day (now signed_in) = 19675 \<and>
   Day (detectedAt milk_record) = 19675"
proof -
  let ?p = "\<lparr> new_name = Str ''Milk Packet'', new_category = Str ''packaged'', expiryDate = 19682,
          new_amountLeft = 100, quantity = 1, new_unit = ''item'',
          new_notes = ''OCR: AMUL MILK'',
          imageUrl = Str ''https://db.example.co/storage/v1/object/public/fridge-photos/user-1/1700000000000.jpg'',
          imagePath = Str ''user-1/1700000000000.jpg'' \<rparr>"
  have run: "handleAddToFridge signed_in milk_record =
     [DispatchAddFridgeItem ?p, RemoveDetected ''detected-1000-0'',
      Alert ''Added!'' ''Milk Packet added to your fridge'']"
    by (simp add: handleAddToFridge_def signed_in_def milk_record_def india_def isoDate_def
        setDate_getDate_plus_def Let_def TimeClip_def UTC_def LocalTime_def MakeDate_def
        Day_def TimeWithinDay_def msPerDay_def)
  then have d: "DispatchAddFridgeItem ?p \<in> set (handleAddToFridge signed_in milk_record)"
    by simp
  have z: "zone_within_a_day (zone signed_in)"
    by (simp add: zone_within_a_day_def signed_in_def india_def msPerDay_def)
  have t: "detectedAt milk_record \<le> now signed_in"
    by (simp add: signed_in_def milk_record_def)
  have days: "Day (now signed_in) = 19675" "Day (detectedAt milk_record) = 19675"
    by (simp_all add: signed_in_def milk_record_def Day_def msPerDay_def)
  from run z t days handleAddToFridge_expiry [OF d z] show ?thesis by simp
qed

text \<open>
  C6, as stated, fails: the record below is stamped 30 days ahead of the clock that the
  add reads (the clock was set back in between). The item handed to addFridgeItem
  expires on day 19682, and the detection date of the record is day 19705.
\<close>

theorem handleAddToFridge_expiry_counterexample:
  "handleAddToFridge signed_in postdated_record =
     [DispatchAddFridgeItem
        \<lparr> new_name = Str ''Milk Packet'', new_category = Str ''packaged'', expiryDate = 19682,
          new_amountLeft = 100, quantity = 1, new_unit = ''item'',
          new_notes = ''OCR: AMUL MILK'',
          imageUrl = Str ''https://db.example.co/storage/v1/object/public/fridge-photos/user-1/1700000000000.jpg'',
          imagePath = Str ''user-1/1700000000000.jpg'' \<rparr>,
      RemoveDetected ''detected-1000-0'',
      Alert ''Added!'' ''Milk Packet added to your fridge''] \<and>
   Day (detectedAt postdated_record) = 19705 \<and>
   \<not> Day (detectedAt postdated_record) \<le> 19682"
  by (simp add: handleAddToFridge_def signed_in_def postdated_record_def india_def isoDate_def
      setDate_getDate_plus_def Let_def TimeClip_def UTC_def LocalTime_def MakeDate_def
      Day_def TimeWithinDay_def msPerDay_def)

end
